theory Spec2Isabelle
  imports Main
begin

section \<open>Entitlement healing: \<open>subscription_manager/healinglib.py\<close>\<close>

text \<open>
  The module has one routine with behaviour of its own, \<open>HealingUpdateAction.perform\<close>.
  Everything it talks to (the entitlement server connection \<open>uep\<close>, the certificate sorter
  \<open>cs\<close>, the plugin manager, the certificate updater, the logger) lives in other modules.
  The embedding therefore takes the behaviour of those collaborators as a parameter, the
  record \<open>env\<close>, and makes every call to them an event of a trace, so that the number and
  the order of the calls can be stated. Whatever a Python \<open>raise\<close> statement raises is a
  value of type \<open>exn\<close>; a call that may raise has a result of type \<open>exn + 'a\<close>.
\<close>

subsection \<open>Values\<close>

text \<open>
  The consumer record and the entitlements returned by \<open>bind\<close> are decoded JSON.
  (JSON floats are left out: no value of this module is one.)
\<close>

datatype json =
    JNull
  | JBool bool
  | JInt int
  | JStr string
  | JArr "json list"
  | JObj "(string \<times> json) list"

text \<open>Python's truth value of a decoded JSON value, as \<open>not consumer["autoheal"]\<close> tests it.\<close>

fun truthy :: "json \<Rightarrow> bool" where
  "truthy JNull = False"
| "truthy (JBool b) = b"
| "truthy (JInt i) = (i \<noteq> 0)"
| "truthy (JStr s) = (s \<noteq> [])"
| "truthy (JArr xs) = (xs \<noteq> [])"
| "truthy (JObj kvs) = (kvs \<noteq> [])"

type_synonym consumer = "string \<rightharpoonup> json"

text \<open>
  An instant is a \<open>datetime\<close> in GMT, counted in microseconds (the resolution of
  \<open>datetime\<close>); \<open>timedelta(days=1)\<close> is \<open>one_day\<close>. The instant \<open>today\<close> is the wall
  clock, so the upper end of the \<open>datetime\<close> range (year 9999) is not modelled.
\<close>

type_synonym instant = int

definition one_day :: int where
  "one_day = 24 * 60 * 60 * 1000000"

text \<open>
  What a call can raise is an instance of \<open>BaseException\<close>, given by its class name and
  its message. \<open>Exn\<close> is an instance of \<open>Exception\<close> (a \<open>ServiceError\<close>, an error of
  a hook); \<open>BaseExn\<close> is an instance of \<open>BaseException\<close> that is not an instance of
  \<open>Exception\<close> (\<open>KeyboardInterrupt\<close>, \<open>SystemExit\<close>, \<open>GeneratorExit\<close> and their
  subclasses). The handler of \<open>perform\<close> is \<open>except Exception\<close>: it catches the former
  and lets the latter pass.
\<close>

datatype exn = Exn string string | BaseExn string string

fun is_exception :: "exn \<Rightarrow> bool" where
  "is_exception (Exn _ _) = True"
| "is_exception (BaseExn _ _) = False"

text \<open>
  Modelled from the spec: \<open>entcertlib.EntCertUpdateReport\<close> is declared in a module that
  is not part of the sources at hand. The specification describes the report as a list of
  grants received and a list of errors encountered; \<open>perform\<close> itself only ever touches
  the list \<open>_exceptions\<close>. A fresh report, \<open>EntCertUpdateReport()\<close>, has both lists empty.
\<close>

record report =
  grants :: "json list"
  exceptions :: "exn list"

definition EntCertUpdateReport :: report where
  "EntCertUpdateReport = \<lparr>grants = [], exceptions = []\<rparr>"

subsection \<open>Collaborators and the trace of calls\<close>

datatype level = Debug | Warning | Error

datatype event =
    GetConsumer string
  | IsValid
  | RunHook string string "json list option"
  | Bind string instant
  | CertUpdate
  | Log level string "instant list"
  | LogException exn

text \<open>
  The behaviour of the collaborators during one cycle. Each of \<open>getConsumer\<close>,
  \<open>is_valid\<close>, \<open>bind\<close> and \<open>update\<close> is called at most once in a cycle, and the two hook
  dispatches differ in their arguments, so a function of the arguments describes them.
  \<open>plugin_run name uuid ents\<close> is \<open>Some x\<close> when the dispatch raises \<open>x\<close>; the entitlement
  data are \<open>None\<close> where the keyword argument \<open>entitlement_data\<close> is not passed.
  \<open>compliant_until\<close> is an attribute of the sorter (\<open>None\<close> is Python's \<open>None\<close>).
  The lookups \<open>inj.require\<close> and the constructor \<open>EntCertActionInvoker()\<close> are taken
  to succeed.
\<close>

record env =
  identity_uuid :: string
  getConsumer :: "string \<Rightarrow> exn + consumer"
  now :: instant
  is_valid :: "exn + bool"
  compliant_until :: "instant option"
  plugin_run :: "string \<Rightarrow> string \<Rightarrow> json list option \<Rightarrow> exn option"
  uep_bind :: "string \<Rightarrow> instant \<Rightarrow> exn + json list"
  cert_update :: "exn + report"

text \<open>The mutable state of one \<open>HealingUpdateAction\<close>: what happened so far, and \<open>self.report\<close>.\<close>

record action =
  trace :: "event list"
  self_report :: report

type_synonym 'a act = "action \<Rightarrow> (exn + 'a) \<times> action"

definition returns :: "'a \<Rightarrow> 'a act" where
  "returns a s = (Inr a, s)"

text \<open>Sequencing: an exception of the first statement skips the rest.\<close>

definition seq :: "'a act \<Rightarrow> ('a \<Rightarrow> 'b act) \<Rightarrow> 'b act" where
  "seq m f s = (case m s of (Inl x, s') \<Rightarrow> (Inl x, s') | (Inr a, s') \<Rightarrow> f a s')"

text \<open>A call to a collaborator: it is recorded, then it returns or raises.\<close>

definition call :: "event \<Rightarrow> exn + 'a \<Rightarrow> 'a act" where
  "call ev r s = (r, s\<lparr>trace := trace s @ [ev]\<rparr>)"

definition log :: "level \<Rightarrow> string \<Rightarrow> instant list \<Rightarrow> unit act" where
  "log lvl msg args = call (Log lvl msg args) (Inr ())"

definition uep_getConsumer :: "env \<Rightarrow> string \<Rightarrow> consumer act" where
  "uep_getConsumer e uuid = call (GetConsumer uuid) (getConsumer e uuid)"

definition cs_is_valid :: "env \<Rightarrow> bool act" where
  "cs_is_valid e = call IsValid (is_valid e)"

definition plugin_manager_run :: "env \<Rightarrow> string \<Rightarrow> string \<Rightarrow> json list option \<Rightarrow> unit act" where
  "plugin_manager_run e name uuid ents =
     call (RunHook name uuid ents)
       (case plugin_run e name uuid ents of Some x \<Rightarrow> Inl x | None \<Rightarrow> Inr ())"

definition uep_bind_call :: "env \<Rightarrow> string \<Rightarrow> instant \<Rightarrow> (json list) act" where
  "uep_bind_call e uuid t = call (Bind uuid t) (uep_bind e uuid t)"

definition cert_updater_update :: "env \<Rightarrow> report act" where
  "cert_updater_update e = call CertUpdate (cert_update e)"

definition set_report :: "report \<Rightarrow> unit act" where
  "set_report r s = (Inr (), s\<lparr>self_report := r\<rparr>)"

subsection \<open>\<open>HealingUpdateAction.perform\<close>\<close>

text \<open>
  The healing sequence, which the source writes out twice (lines 105 to 112 for today,
  lines 123 to 126 for tomorrow) with the bind instant as the only difference:
  pre-hook, \<open>bind\<close>, post-hook with the entitlements \<open>bind\<close> returned, then
  \<open>self.report = cert_updater.update()\<close>.
\<close>

definition auto_attach :: "env \<Rightarrow> string \<Rightarrow> instant \<Rightarrow> unit act" where
  "auto_attach e uuid t =
     seq (plugin_manager_run e ''pre_auto_attach'' uuid None) (\<lambda>_.
     seq (uep_bind_call e uuid t) (\<lambda>ents.
     seq (plugin_manager_run e ''post_auto_attach'' uuid (Some ents)) (\<lambda>_.
     seq (cert_updater_update e) (\<lambda>r.
     set_report r))))"

text \<open>
  The two-horizon decision (lines 103 to 128). Its value is the pair
  \<open>(valid_today, valid_tomorrow)\<close>, both \<open>False\<close> at the start.
\<close>

definition check_and_heal :: "env \<Rightarrow> string \<Rightarrow> instant \<Rightarrow> instant \<Rightarrow> (bool \<times> bool) act" where
  "check_and_heal e uuid today tomorrow =
     seq (cs_is_valid e) (\<lambda>valid.
       if \<not> valid then
         seq (log Warning ''Found invalid entitlements for today: %s'' [today]) (\<lambda>_.
         seq (auto_attach e uuid today) (\<lambda>_.
         returns (False, False)))
       else
         (case compliant_until e of
            None \<Rightarrow>
              seq (log Warning ''Got valid status from server but no valid until date.'' []) (\<lambda>_.
              returns (True, False))
          | Some until \<Rightarrow>
              if tomorrow > until then
                seq (log Warning ''Entitlements will be invalid by tomorrow: %s'' [tomorrow]) (\<lambda>_.
                seq (auto_attach e uuid tomorrow) (\<lambda>_.
                returns (True, False)))
              else returns (True, True)))"

text \<open>The summary message of lines 130 to 135, with the instants it interpolates.\<close>

definition summary :: "bool \<Rightarrow> bool \<Rightarrow> instant \<Rightarrow> instant \<Rightarrow> string \<times> instant list" where
  "summary valid_today valid_tomorrow today tomorrow =
     (let msg = ''Entitlement auto healing was checked and entitlements'' in
      if valid_today then
        if valid_tomorrow then
          (msg @ '' are valid today %s'' @ '' and tomorrow %s'', [today, tomorrow])
        else (msg @ '' are valid today %s'', [today])
      else (msg, []))"

text \<open>The body of the \<open>try\<close> statement (lines 91 to 135).\<close>

definition try_body :: "env \<Rightarrow> string \<Rightarrow> unit act" where
  "try_body e uuid =
     (let today = now e; tomorrow = today + one_day in
      seq (check_and_heal e uuid today tomorrow) (\<lambda>(valid_today, valid_tomorrow).
      case summary valid_today valid_tomorrow today tomorrow of
        (msg, args) \<Rightarrow> log Debug msg args))"

text \<open>
  The body of the \<open>except Exception as e\<close> clause (lines 138 to 140), entered for an
  instance of \<open>Exception\<close> only (see \<open>perform\<close>).
\<close>

definition handler :: "exn \<Rightarrow> unit act" where
  "handler x =
     seq (log Error ''Error attempting to auto-heal:'' []) (\<lambda>_.
     seq (call (LogException x) (Inr ())) (\<lambda>_.
     (\<lambda>s. (Inr (), s\<lparr>self_report :=
        (self_report s)\<lparr>exceptions := exceptions (self_report s) @ [x]\<rparr>\<rparr>))))"

text \<open>The test \<open>"autoheal" not in consumer or not consumer["autoheal"]\<close> of line 85.\<close>

definition autoheal_disabled :: "consumer \<Rightarrow> bool" where
  "autoheal_disabled c = (case c ''autoheal'' of None \<Rightarrow> True | Some v \<Rightarrow> \<not> truthy v)"

text \<open>
  What \<open>perform\<close> hands to its caller: it returns the integer \<open>0\<close> (line 87) or
  \<open>self.report\<close> (lines 141 and 144), or an exception leaves it.
\<close>

datatype retval = RInt int | RReport report

datatype outcome = Returned retval | Raised exn

text \<open>
  A fresh action, as \<open>__init__\<close> leaves it, and \<open>perform\<close> on it. The account lookup and
  the auto-heal test come before the \<open>try\<close> statement, so what the lookup raises leaves
  \<open>perform\<close>. What the body of the \<open>try\<close> statement raises is handled when it is an
  instance of \<open>Exception\<close> and leaves \<open>perform\<close> otherwise. The result is the outcome
  together with the trace of the cycle.
\<close>

definition init :: action where
  "init = \<lparr>trace = [], self_report = EntCertUpdateReport\<rparr>"

definition perform :: "env \<Rightarrow> outcome \<times> event list" where
  "perform e =
     (let uuid = identity_uuid e in
      case uep_getConsumer e uuid init of
        (Inl x, s) \<Rightarrow> (Raised x, trace s)
      | (Inr consumer, s) \<Rightarrow>
          if autoheal_disabled consumer then
            (case log Warning ''Auto-heal disabled on server, skipping.'' [] s of
               (_, s') \<Rightarrow> (Returned (RInt 0), trace s'))
          else
            (case try_body e uuid s of
               (Inl x, s') \<Rightarrow>
                 if is_exception x then
                   (case handler x s' of
                      (_, s'') \<Rightarrow> (Returned (RReport (self_report s'')), trace s''))
                 else (Raised x, trace s')
             | (Inr _, s') \<Rightarrow>
                 (case log Debug ''Auto-heal check complete.'' [] s' of
                    (_, s'') \<Rightarrow> (Returned (RReport (self_report s'')), trace s''))))"

subsection \<open>Reading a trace\<close>

fun is_bind :: "event \<Rightarrow> bool" where
  "is_bind (Bind _ _) = True"
| "is_bind _ = False"

fun is_hook :: "event \<Rightarrow> bool" where
  "is_hook (RunHook _ _ _) = True"
| "is_hook _ = False"

fun is_log :: "event \<Rightarrow> bool" where
  "is_log (Log _ _ _) = True"
| "is_log (LogException _) = True"
| "is_log _ = False"

text \<open>The calls to the collaborators, in order, without the log lines.\<close>

definition calls :: "event list \<Rightarrow> event list" where
  "calls tr = filter (\<lambda>ev. \<not> is_log ev) tr"

definition bind_calls :: "event list \<Rightarrow> event list" where
  "bind_calls tr = filter is_bind tr"

definition hook_calls :: "event list \<Rightarrow> event list" where
  "hook_calls tr = filter is_hook tr"

text \<open>The instants an event mentions.\<close>

fun instants_of :: "event \<Rightarrow> instant list" where
  "instants_of (Bind _ t) = [t]"
| "instants_of (Log _ _ ts) = ts"
| "instants_of _ = []"

text \<open>The warnings and errors logged.\<close>

fun logged :: "level \<Rightarrow> event list \<Rightarrow> string list" where
  "logged lvl [] = []"
| "logged lvl (Log l msg _ # tr) = (if l = lvl then msg # logged lvl tr else logged lvl tr)"
| "logged lvl (_ # tr) = logged lvl tr"

text \<open>Auto-heal is enabled on the account the lookup returns.\<close>

definition autoheal_enabled :: "env \<Rightarrow> bool" where
  "autoheal_enabled e =
     (case getConsumer e (identity_uuid e) of
        Inl _ \<Rightarrow> False
      | Inr c \<Rightarrow> \<not> autoheal_disabled c)"

text \<open>The two components of a cycle: what the caller gets, and what happened.\<close>

definition result_of :: "env \<Rightarrow> outcome" where
  "result_of e = fst (perform e)"

definition trace_of :: "env \<Rightarrow> event list" where
  "trace_of e = snd (perform e)"

text \<open>
  The bind instant of the branch the decision takes, from the conditions of lines 103, 116
  and 121: today when the sorter says invalid, tomorrow when it says valid with a
  valid-until date before tomorrow, otherwise none.
\<close>

definition remediation_instant :: "env \<Rightarrow> instant option" where
  "remediation_instant e =
     (case is_valid e of
        Inl _ \<Rightarrow> None
      | Inr False \<Rightarrow> Some (now e)
      | Inr True \<Rightarrow>
          (case compliant_until e of
             None \<Rightarrow> None
           | Some until \<Rightarrow>
               if now e + one_day > until then Some (now e + one_day) else None))"

text \<open>
  What the exits of the \<open>try\<close> statement make of the result of its body: the handler
  logs an instance of \<open>Exception\<close> and appends it to \<open>self.report._exceptions\<close>; the
  \<open>else\<close> clause logs completion; both return \<open>self.report\<close>. Anything else that was
  raised leaves \<open>perform\<close>.
\<close>

definition finish :: "(exn + unit) \<times> action \<Rightarrow> outcome \<times> event list" where
  "finish r =
     (case r of
        (Inl x, s) \<Rightarrow>
          if is_exception x then
            (Returned (RReport ((self_report s)\<lparr>exceptions := exceptions (self_report s) @ [x]\<rparr>)),
             trace s @ [Log Error ''Error attempting to auto-heal:'' [], LogException x])
          else (Raised x, trace s)
      | (Inr _, s) \<Rightarrow>
          (Returned (RReport (self_report s)),
           trace s @ [Log Debug ''Auto-heal check complete.'' []]))"

text \<open>
  What \<open>perform\<close> hands to its caller when a statement of the \<open>try\<close> body raises \<open>x\<close>
  while \<open>self.report\<close> is still the fresh report: an instance of \<open>Exception\<close> comes back
  as the one error of the report, anything else is raised to the caller.
\<close>

definition raised_in_try :: "exn \<Rightarrow> outcome" where
  "raised_in_try x =
     (if is_exception x then Returned (RReport \<lparr>grants = [], exceptions = [x]\<rparr>)
      else Raised x)"

subsection \<open>A concrete cycle\<close>

text \<open>
  The scenario of 2024-01-10T00:00:00Z: auto-heal is on, the sorter reports invalid
  entitlements, both hooks and the bind succeed, and the certificate update reports one
  certificate failure of its own. Variations of it serve as test inputs.
\<close>

definition consumer_on :: consumer where
  "consumer_on = [''uuid'' \<mapsto> JStr ''c0ffee'', ''autoheal'' \<mapsto> JBool True]"

definition consumer_off :: consumer where
  "consumer_off = [''uuid'' \<mapsto> JStr ''c0ffee'', ''autoheal'' \<mapsto> JBool False]"

definition consumer_bare :: consumer where
  "consumer_bare = [''uuid'' \<mapsto> JStr ''c0ffee'']"

definition jan10 :: instant where
  "jan10 = 1704844800000000"

definition half_day :: int where
  "half_day = 12 * 60 * 60 * 1000000"

definition pool_grant :: "json list" where
  "pool_grant = [JObj [(''pool'', JStr ''p1''), (''quantity'', JInt 1)]]"

definition update_report :: report where
  "update_report = \<lparr>grants = [], exceptions = [Exn ''CertificateError'' ''write failed'']\<rparr>"

definition no_hook_fails :: "string \<Rightarrow> string \<Rightarrow> json list option \<Rightarrow> exn option" where
  "no_hook_fails name uuid ents = None"

definition pre_hook_fails :: "string \<Rightarrow> string \<Rightarrow> json list option \<Rightarrow> exn option" where
  "pre_hook_fails name uuid ents =
     (if name = ''pre_auto_attach'' then Some (Exn ''HookError'' ''pre'') else None)"

definition pre_hook_interrupted :: "string \<Rightarrow> string \<Rightarrow> json list option \<Rightarrow> exn option" where
  "pre_hook_interrupted name uuid ents =
     (if name = ''pre_auto_attach'' then Some (BaseExn ''KeyboardInterrupt'' []) else None)"

definition post_hook_fails :: "string \<Rightarrow> string \<Rightarrow> json list option \<Rightarrow> exn option" where
  "post_hook_fails name uuid ents =
     (if name = ''post_auto_attach'' then Some (Exn ''HookError'' ''post'') else None)"

definition lookup_on :: "string \<Rightarrow> exn + consumer" where
  "lookup_on uuid = Inr consumer_on"

definition lookup_off :: "string \<Rightarrow> exn + consumer" where
  "lookup_off uuid = Inr consumer_off"

definition lookup_bare :: "string \<Rightarrow> exn + consumer" where
  "lookup_bare uuid = Inr consumer_bare"

definition lookup_fails :: "string \<Rightarrow> exn + consumer" where
  "lookup_fails uuid = Inl (Exn ''ServiceError'' ''connection refused'')"

definition bind_ok :: "string \<Rightarrow> instant \<Rightarrow> exn + json list" where
  "bind_ok uuid t = Inr pool_grant"

definition bind_fails :: "string \<Rightarrow> instant \<Rightarrow> exn + json list" where
  "bind_fails uuid t = Inl (Exn ''ServiceError'' ''no pools'')"

definition cycle :: env where
  "cycle =
     \<lparr>identity_uuid = ''c0ffee'',
      getConsumer = lookup_on,
      now = jan10,
      is_valid = Inr False,
      compliant_until = None,
      plugin_run = no_hook_fails,
      uep_bind = bind_ok,
      cert_update = Inr update_report\<rparr>"

lemmas cycle_defs = cycle_def lookup_on_def lookup_off_def lookup_bare_def lookup_fails_def
  consumer_on_def consumer_off_def consumer_bare_def jan10_def half_day_def one_day_def
  pool_grant_def update_report_def no_hook_fails_def pre_hook_fails_def post_hook_fails_def
  pre_hook_interrupted_def
  bind_ok_def bind_fails_def autoheal_enabled_def autoheal_disabled_def remediation_instant_def

section \<open>The paths through one cycle\<close>

lemmas act_defs = returns_def seq_def call_def log_def uep_getConsumer_def cs_is_valid_def
  plugin_manager_run_def uep_bind_call_def cert_updater_update_def set_report_def

subsection \<open>The healing sequence\<close>

lemma auto_attach_pre_raises:
  "plugin_run e ''pre_auto_attach'' u None = Some x \<Longrightarrow>
   auto_attach e u t s = (Inl x, s\<lparr>trace := trace s @ [RunHook ''pre_auto_attach'' u None]\<rparr>)"
  by (simp add: auto_attach_def act_defs)

lemma auto_attach_bind_raises:
  "plugin_run e ''pre_auto_attach'' u None = None \<Longrightarrow> uep_bind e u t = Inl x \<Longrightarrow>
   auto_attach e u t s =
     (Inl x, s\<lparr>trace := trace s @ [RunHook ''pre_auto_attach'' u None, Bind u t]\<rparr>)"
  by (simp add: auto_attach_def act_defs)

lemma auto_attach_post_raises:
  "plugin_run e ''pre_auto_attach'' u None = None \<Longrightarrow> uep_bind e u t = Inr ents \<Longrightarrow>
   plugin_run e ''post_auto_attach'' u (Some ents) = Some x \<Longrightarrow>
   auto_attach e u t s =
     (Inl x, s\<lparr>trace := trace s @ [RunHook ''pre_auto_attach'' u None, Bind u t,
        RunHook ''post_auto_attach'' u (Some ents)]\<rparr>)"
  by (simp add: auto_attach_def act_defs)

lemma auto_attach_update_raises:
  "plugin_run e ''pre_auto_attach'' u None = None \<Longrightarrow> uep_bind e u t = Inr ents \<Longrightarrow>
   plugin_run e ''post_auto_attach'' u (Some ents) = None \<Longrightarrow> cert_update e = Inl x \<Longrightarrow>
   auto_attach e u t s =
     (Inl x, s\<lparr>trace := trace s @ [RunHook ''pre_auto_attach'' u None, Bind u t,
        RunHook ''post_auto_attach'' u (Some ents), CertUpdate]\<rparr>)"
  by (simp add: auto_attach_def act_defs)

lemma auto_attach_returns:
  "plugin_run e ''pre_auto_attach'' u None = None \<Longrightarrow> uep_bind e u t = Inr ents \<Longrightarrow>
   plugin_run e ''post_auto_attach'' u (Some ents) = None \<Longrightarrow> cert_update e = Inr r \<Longrightarrow>
   auto_attach e u t s =
     (Inr (), s\<lparr>trace := trace s @ [RunHook ''pre_auto_attach'' u None, Bind u t,
        RunHook ''post_auto_attach'' u (Some ents), CertUpdate], self_report := r\<rparr>)"
  by (simp add: auto_attach_def act_defs)

lemma auto_attach_ignores_until:
  "auto_attach (e\<lparr>compliant_until := cu\<rparr>) u t s = auto_attach e u t s"
  by (simp add: auto_attach_def act_defs)

subsection \<open>Before the \<open>try\<close> statement\<close>

lemma perform_lookup_raises:
  "getConsumer e (identity_uuid e) = Inl x \<Longrightarrow>
   perform e = (Raised x, [GetConsumer (identity_uuid e)])"
  by (simp add: perform_def Let_def init_def act_defs)

lemma perform_disabled:
  "getConsumer e (identity_uuid e) = Inr c \<Longrightarrow> autoheal_disabled c \<Longrightarrow>
   perform e = (Returned (RInt 0),
     [GetConsumer (identity_uuid e), Log Warning ''Auto-heal disabled on server, skipping.'' []])"
  by (simp add: perform_def Let_def init_def act_defs)

lemma autoheal_enabledD:
  "autoheal_enabled e \<Longrightarrow>
   \<exists>c. getConsumer e (identity_uuid e) = Inr c \<and> \<not> autoheal_disabled c"
  by (cases "getConsumer e (identity_uuid e)") (simp_all add: autoheal_enabled_def)

lemma perform_enabled:
  assumes "autoheal_enabled e"
  shows "perform e = finish (try_body e (identity_uuid e)
           \<lparr>trace = [GetConsumer (identity_uuid e)], self_report = EntCertUpdateReport\<rparr>)"
proof -
  from assms obtain c where "getConsumer e (identity_uuid e) = Inr c" "\<not> autoheal_disabled c"
    using autoheal_enabledD by blast
  then show ?thesis
    by (simp add: perform_def Let_def uep_getConsumer_def call_def init_def finish_def
        handler_def log_def seq_def split: prod.splits sum.splits)
qed

subsection \<open>The body of the \<open>try\<close> statement\<close>

lemma try_body_is_valid_raises:
  "is_valid e = Inl x \<Longrightarrow>
   try_body e u s = (Inl x, s\<lparr>trace := trace s @ [IsValid]\<rparr>)"
  by (simp add: try_body_def check_and_heal_def Let_def act_defs)

lemma try_body_today:
  "is_valid e = Inr False \<Longrightarrow>
   try_body e u s =
     (case auto_attach e u (now e)
        (s\<lparr>trace := trace s @ [IsValid,
            Log Warning ''Found invalid entitlements for today: %s'' [now e]]\<rparr>) of
        (Inl x, s') \<Rightarrow> (Inl x, s')
      | (Inr _, s') \<Rightarrow>
          (Inr (), s'\<lparr>trace := trace s' @
             [Log Debug ''Entitlement auto healing was checked and entitlements'' []]\<rparr>))"
  by (simp add: try_body_def check_and_heal_def summary_def Let_def act_defs
      split: prod.splits sum.splits)

lemma try_body_no_until:
  "is_valid e = Inr True \<Longrightarrow> compliant_until e = None \<Longrightarrow>
   try_body e u s =
     (Inr (), s\<lparr>trace := trace s @ [IsValid,
        Log Warning ''Got valid status from server but no valid until date.'' [],
        Log Debug ''Entitlement auto healing was checked and entitlements are valid today %s''
          [now e]]\<rparr>)"
  by (simp add: try_body_def check_and_heal_def summary_def Let_def act_defs)

lemma try_body_covered:
  "is_valid e = Inr True \<Longrightarrow> compliant_until e = Some c \<Longrightarrow> now e + one_day \<le> c \<Longrightarrow>
   try_body e u s =
     (Inr (), s\<lparr>trace := trace s @ [IsValid,
        Log Debug
          ''Entitlement auto healing was checked and entitlements are valid today %s and tomorrow %s''
          [now e, now e + one_day]]\<rparr>)"
  by (simp add: try_body_def check_and_heal_def summary_def Let_def act_defs)

lemma try_body_tomorrow:
  "is_valid e = Inr True \<Longrightarrow> compliant_until e = Some c \<Longrightarrow> now e + one_day > c \<Longrightarrow>
   try_body e u s =
     (case auto_attach e u (now e + one_day)
        (s\<lparr>trace := trace s @ [IsValid,
            Log Warning ''Entitlements will be invalid by tomorrow: %s'' [now e + one_day]]\<rparr>) of
        (Inl x, s') \<Rightarrow> (Inl x, s')
      | (Inr _, s') \<Rightarrow>
          (Inr (), s'\<lparr>trace := trace s' @
             [Log Debug ''Entitlement auto healing was checked and entitlements are valid today %s''
                [now e]]\<rparr>))"
  by (simp add: try_body_def check_and_heal_def summary_def Let_def act_defs
      split: prod.splits sum.splits)

subsection \<open>The whole cycle, by path\<close>

lemma remediation_instantD:
  "remediation_instant e = Some t \<Longrightarrow>
   (is_valid e = Inr False \<and> t = now e) \<or>
   (is_valid e = Inr True \<and> t = now e + one_day \<and>
      (\<exists>c. compliant_until e = Some c \<and> now e + one_day > c))"
  by (auto simp: remediation_instant_def split: sum.splits bool.splits option.splits if_splits)

lemma remediation_noneD:
  "remediation_instant e = None \<Longrightarrow> is_valid e = Inr v \<Longrightarrow>
   v \<and> (compliant_until e = None \<or> (\<exists>c. compliant_until e = Some c \<and> now e + one_day \<le> c))"
  by (auto simp: remediation_instant_def split: sum.splits bool.splits option.splits if_splits)

lemmas read_defs = calls_def bind_calls_def hook_calls_def result_of_def trace_of_def

lemma heal_pre_raises:
  assumes "autoheal_enabled e" and "remediation_instant e = Some t"
    and "plugin_run e ''pre_auto_attach'' (identity_uuid e) None = Some x"
  shows "result_of e = raised_in_try x \<and>
         calls (trace_of e) =
           [GetConsumer (identity_uuid e), IsValid,
            RunHook ''pre_auto_attach'' (identity_uuid e) None]"
  using remediation_instantD [OF assms(2)] assms(3)
  by (auto simp: perform_enabled [OF assms(1)] try_body_today try_body_tomorrow
      auto_attach_pre_raises finish_def raised_in_try_def EntCertUpdateReport_def read_defs)

lemma heal_bind_raises:
  assumes "autoheal_enabled e" and "remediation_instant e = Some t"
    and "plugin_run e ''pre_auto_attach'' (identity_uuid e) None = None"
    and "uep_bind e (identity_uuid e) t = Inl x"
  shows "result_of e = raised_in_try x \<and>
         calls (trace_of e) =
           [GetConsumer (identity_uuid e), IsValid,
            RunHook ''pre_auto_attach'' (identity_uuid e) None, Bind (identity_uuid e) t]"
  using remediation_instantD [OF assms(2)] assms(3,4)
  by (auto simp: perform_enabled [OF assms(1)] try_body_today try_body_tomorrow
      auto_attach_bind_raises finish_def raised_in_try_def EntCertUpdateReport_def read_defs)

lemma heal_post_raises:
  assumes "autoheal_enabled e" and "remediation_instant e = Some t"
    and "plugin_run e ''pre_auto_attach'' (identity_uuid e) None = None"
    and "uep_bind e (identity_uuid e) t = Inr ents"
    and "plugin_run e ''post_auto_attach'' (identity_uuid e) (Some ents) = Some x"
  shows "result_of e = raised_in_try x \<and>
         calls (trace_of e) =
           [GetConsumer (identity_uuid e), IsValid,
            RunHook ''pre_auto_attach'' (identity_uuid e) None, Bind (identity_uuid e) t,
            RunHook ''post_auto_attach'' (identity_uuid e) (Some ents)]"
  using remediation_instantD [OF assms(2)] assms(3,4,5)
  by (auto simp: perform_enabled [OF assms(1)] try_body_today try_body_tomorrow
      auto_attach_post_raises finish_def raised_in_try_def EntCertUpdateReport_def read_defs)

lemma heal_update_raises:
  assumes "autoheal_enabled e" and "remediation_instant e = Some t"
    and "plugin_run e ''pre_auto_attach'' (identity_uuid e) None = None"
    and "uep_bind e (identity_uuid e) t = Inr ents"
    and "plugin_run e ''post_auto_attach'' (identity_uuid e) (Some ents) = None"
    and "cert_update e = Inl x"
  shows "result_of e = raised_in_try x \<and>
         calls (trace_of e) =
           [GetConsumer (identity_uuid e), IsValid,
            RunHook ''pre_auto_attach'' (identity_uuid e) None, Bind (identity_uuid e) t,
            RunHook ''post_auto_attach'' (identity_uuid e) (Some ents), CertUpdate]"
  using remediation_instantD [OF assms(2)] assms(3,4,5,6)
  by (auto simp: perform_enabled [OF assms(1)] try_body_today try_body_tomorrow
      auto_attach_update_raises finish_def raised_in_try_def EntCertUpdateReport_def read_defs)

lemma heal_returns:
  assumes "autoheal_enabled e" and "remediation_instant e = Some t"
    and "plugin_run e ''pre_auto_attach'' (identity_uuid e) None = None"
    and "uep_bind e (identity_uuid e) t = Inr ents"
    and "plugin_run e ''post_auto_attach'' (identity_uuid e) (Some ents) = None"
    and "cert_update e = Inr r"
  shows "result_of e = Returned (RReport r) \<and>
         calls (trace_of e) =
           [GetConsumer (identity_uuid e), IsValid,
            RunHook ''pre_auto_attach'' (identity_uuid e) None, Bind (identity_uuid e) t,
            RunHook ''post_auto_attach'' (identity_uuid e) (Some ents), CertUpdate]"
  using remediation_instantD [OF assms(2)] assms(3,4,5,6)
  by (auto simp: perform_enabled [OF assms(1)] try_body_today try_body_tomorrow
      auto_attach_returns finish_def raised_in_try_def EntCertUpdateReport_def read_defs)

lemma no_heal:
  assumes "autoheal_enabled e" and "is_valid e = Inr v" and "remediation_instant e = None"
  shows "result_of e = Returned (RReport EntCertUpdateReport) \<and>
         calls (trace_of e) = [GetConsumer (identity_uuid e), IsValid]"
proof -
  from remediation_noneD [OF assms(3,2)] assms(2)
  have v: "is_valid e = Inr True"
    and cu: "compliant_until e = None \<or> (\<exists>c. compliant_until e = Some c \<and> now e + one_day \<le> c)"
    by auto
  from cu show ?thesis
    by (auto simp: perform_enabled [OF assms(1)] try_body_no_until [OF v]
        try_body_covered [OF v] finish_def read_defs)
qed

lemma check_raises:
  assumes "autoheal_enabled e" and "is_valid e = Inl x"
  shows "result_of e = raised_in_try x \<and>
         calls (trace_of e) = [GetConsumer (identity_uuid e), IsValid]"
  using assms(2)
  by (simp add: perform_enabled [OF assms(1)] try_body_is_valid_raises
      finish_def raised_in_try_def EntCertUpdateReport_def read_defs)

lemma bind_calls_calls: "bind_calls tr = filter is_bind (calls tr)"
proof -
  have "is_bind ev \<Longrightarrow> \<not> is_log ev" for ev by (cases ev) simp_all
  then show ?thesis
    unfolding bind_calls_def calls_def filter_filter by (intro filter_cong) auto
qed

lemma hook_calls_calls: "hook_calls tr = filter is_hook (calls tr)"
proof -
  have "is_hook ev \<Longrightarrow> \<not> is_log ev" for ev by (cases ev) simp_all
  then show ?thesis
    unfolding hook_calls_def calls_def filter_filter by (intro filter_cong) auto
qed

lemma in_calls: "\<not> is_log ev \<Longrightarrow> ev \<in> set (calls tr) \<longleftrightarrow> ev \<in> set tr"
  by (simp add: calls_def)

text \<open>Every cycle follows one of the paths above.\<close>

lemma calls_shape:
  "calls (trace_of e) = [GetConsumer (identity_uuid e)] \<or>
   calls (trace_of e) = [GetConsumer (identity_uuid e), IsValid] \<or>
   (\<exists>t. remediation_instant e = Some t \<and> autoheal_enabled e \<and>
      (calls (trace_of e) =
         [GetConsumer (identity_uuid e), IsValid,
          RunHook ''pre_auto_attach'' (identity_uuid e) None] \<and>
         plugin_run e ''pre_auto_attach'' (identity_uuid e) None \<noteq> None \<or>
       plugin_run e ''pre_auto_attach'' (identity_uuid e) None = None \<and>
       (calls (trace_of e) =
         [GetConsumer (identity_uuid e), IsValid,
          RunHook ''pre_auto_attach'' (identity_uuid e) None, Bind (identity_uuid e) t] \<and>
        (\<exists>x. uep_bind e (identity_uuid e) t = Inl x) \<or>
        (\<exists>ents. uep_bind e (identity_uuid e) t = Inr ents \<and>
          (calls (trace_of e) =
             [GetConsumer (identity_uuid e), IsValid,
              RunHook ''pre_auto_attach'' (identity_uuid e) None, Bind (identity_uuid e) t,
              RunHook ''post_auto_attach'' (identity_uuid e) (Some ents)] \<and>
           plugin_run e ''post_auto_attach'' (identity_uuid e) (Some ents) \<noteq> None \<or>
           calls (trace_of e) =
             [GetConsumer (identity_uuid e), IsValid,
              RunHook ''pre_auto_attach'' (identity_uuid e) None, Bind (identity_uuid e) t,
              RunHook ''post_auto_attach'' (identity_uuid e) (Some ents), CertUpdate] \<and>
           plugin_run e ''post_auto_attach'' (identity_uuid e) (Some ents) = None)))))"
proof (cases "getConsumer e (identity_uuid e)")
  case (Inl x)
  then show ?thesis by (simp add: perform_lookup_raises read_defs)
next
  case (Inr c)
  show ?thesis
  proof (cases "autoheal_disabled c")
    case True
    with Inr show ?thesis by (simp add: perform_disabled read_defs)
  next
    case False
    with Inr have en: "autoheal_enabled e" by (simp add: autoheal_enabled_def)
    show ?thesis
    proof (cases "is_valid e")
      case (Inl x)
      with en show ?thesis using check_raises by blast
    next
      case v: (Inr v)
      show ?thesis
      proof (cases "remediation_instant e")
        case None
        with en v show ?thesis using no_heal by blast
      next
        case (Some t)
        note t = this
        show ?thesis
        proof (cases "plugin_run e ''pre_auto_attach'' (identity_uuid e) None")
          case (Some x)
          with en t show ?thesis using heal_pre_raises [OF en t Some] by simp
        next
          case pre: None
          show ?thesis
          proof (cases "uep_bind e (identity_uuid e) t")
            case (Inl x)
            then show ?thesis using heal_bind_raises [OF en t pre Inl] en t pre by simp
          next
            case b: (Inr ents)
            show ?thesis
            proof (cases "plugin_run e ''post_auto_attach'' (identity_uuid e) (Some ents)")
              case (Some x)
              then show ?thesis using heal_post_raises [OF en t pre b Some] en t pre b by simp
            next
              case post: None
              show ?thesis
              proof (cases "cert_update e")
                case (Inl x)
                then show ?thesis
                  using heal_update_raises [OF en t pre b post Inl] en t pre b post by simp
              next
                case (Inr r)
                then show ?thesis
                  using heal_returns [OF en t pre b post Inr] en t pre b post by simp
              qed
            qed
          qed
        qed
      qed
    qed
  qed
qed

lemma heal_paths [consumes 2, case_names pre_raises bind_raises post_raises update_raises returns]:
  assumes "autoheal_enabled e" and "remediation_instant e = Some t"
  obtains
    x where "plugin_run e ''pre_auto_attach'' (identity_uuid e) None = Some x"
      and "result_of e = raised_in_try x"
      and "calls (trace_of e) =
             [GetConsumer (identity_uuid e), IsValid,
              RunHook ''pre_auto_attach'' (identity_uuid e) None]"
  | x where "plugin_run e ''pre_auto_attach'' (identity_uuid e) None = None"
      and "uep_bind e (identity_uuid e) t = Inl x"
      and "result_of e = raised_in_try x"
      and "calls (trace_of e) =
             [GetConsumer (identity_uuid e), IsValid,
              RunHook ''pre_auto_attach'' (identity_uuid e) None, Bind (identity_uuid e) t]"
  | ents x where "plugin_run e ''pre_auto_attach'' (identity_uuid e) None = None"
      and "uep_bind e (identity_uuid e) t = Inr ents"
      and "plugin_run e ''post_auto_attach'' (identity_uuid e) (Some ents) = Some x"
      and "result_of e = raised_in_try x"
      and "calls (trace_of e) =
             [GetConsumer (identity_uuid e), IsValid,
              RunHook ''pre_auto_attach'' (identity_uuid e) None, Bind (identity_uuid e) t,
              RunHook ''post_auto_attach'' (identity_uuid e) (Some ents)]"
  | ents x where "plugin_run e ''pre_auto_attach'' (identity_uuid e) None = None"
      and "uep_bind e (identity_uuid e) t = Inr ents"
      and "plugin_run e ''post_auto_attach'' (identity_uuid e) (Some ents) = None"
      and "cert_update e = Inl x"
      and "result_of e = raised_in_try x"
      and "calls (trace_of e) =
             [GetConsumer (identity_uuid e), IsValid,
              RunHook ''pre_auto_attach'' (identity_uuid e) None, Bind (identity_uuid e) t,
              RunHook ''post_auto_attach'' (identity_uuid e) (Some ents), CertUpdate]"
  | ents r where "plugin_run e ''pre_auto_attach'' (identity_uuid e) None = None"
      and "uep_bind e (identity_uuid e) t = Inr ents"
      and "plugin_run e ''post_auto_attach'' (identity_uuid e) (Some ents) = None"
      and "cert_update e = Inr r"
      and "result_of e = Returned (RReport r)"
      and "calls (trace_of e) =
             [GetConsumer (identity_uuid e), IsValid,
              RunHook ''pre_auto_attach'' (identity_uuid e) None, Bind (identity_uuid e) t,
              RunHook ''post_auto_attach'' (identity_uuid e) (Some ents), CertUpdate]"
proof (cases "plugin_run e ''pre_auto_attach'' (identity_uuid e) None")
  case (Some x)
  from heal_pre_raises [OF assms Some] Some show ?thesis by (intro that(1)) auto
next
  case pre: None
  show ?thesis
  proof (cases "uep_bind e (identity_uuid e) t")
    case (Inl x)
    from heal_bind_raises [OF assms pre Inl] pre Inl show ?thesis by (intro that(2)) auto
  next
    case b: (Inr ents)
    show ?thesis
    proof (cases "plugin_run e ''post_auto_attach'' (identity_uuid e) (Some ents)")
      case (Some x)
      from heal_post_raises [OF assms pre b Some] pre b Some show ?thesis
        by (intro that(3)) auto
    next
      case post: None
      show ?thesis
      proof (cases "cert_update e")
        case (Inl x)
        from heal_update_raises [OF assms pre b post Inl] pre b post Inl show ?thesis
          by (intro that(4)) auto
      next
        case (Inr r)
        from heal_returns [OF assms pre b post Inr] pre b post Inr show ?thesis
          by (intro that(5)) auto
      qed
    qed
  qed
qed

lemma today_instant: "is_valid e = Inr False \<Longrightarrow> remediation_instant e = Some (now e)"
  by (simp add: remediation_instant_def)

lemma tomorrow_instant:
  "is_valid e = Inr True \<Longrightarrow> compliant_until e = Some c \<Longrightarrow> now e + one_day > c \<Longrightarrow>
   remediation_instant e = Some (now e + one_day)"
  by (simp add: remediation_instant_def)

lemma covered_instant:
  "is_valid e = Inr True \<Longrightarrow> compliant_until e = Some c \<Longrightarrow> now e + one_day \<le> c \<Longrightarrow>
   remediation_instant e = None"
  by (simp add: remediation_instant_def)

lemma today_ignores_until:
  assumes "is_valid e = Inr False"
  shows "perform (e\<lparr>compliant_until := cu\<rparr>) = perform e"
proof (cases "getConsumer e (identity_uuid e)")
  case (Inl x)
  then show ?thesis by (simp add: perform_lookup_raises)
next
  case (Inr c)
  show ?thesis
  proof (cases "autoheal_disabled c")
    case True
    with Inr show ?thesis by (simp add: perform_disabled)
  next
    case False
    with Inr have en: "autoheal_enabled e" "autoheal_enabled (e\<lparr>compliant_until := cu\<rparr>)"
      by (simp_all add: autoheal_enabled_def)
    from assms show ?thesis
      by (simp add: perform_enabled [OF en(1)] perform_enabled [OF en(2)] try_body_today
          auto_attach_ignores_until)
  qed
qed

text \<open>The whole trace of a cycle that finds today invalid mentions no instant but today.\<close>

lemma today_instants:
  assumes "autoheal_enabled e" and "is_valid e = Inr False"
  shows "\<forall>ev \<in> set (trace_of e). \<forall>t \<in> set (instants_of ev). t = now e"
  using assms(1) today_instant [OF assms(2)]
proof (cases rule: heal_paths)
  case (pre_raises x)
  then show ?thesis using assms(2)
    by (simp add: trace_of_def perform_enabled [OF assms(1)] try_body_today
        auto_attach_pre_raises finish_def)
next
  case (bind_raises x)
  then show ?thesis using assms(2)
    by (simp add: trace_of_def perform_enabled [OF assms(1)] try_body_today
        auto_attach_bind_raises finish_def)
next
  case (post_raises ents x)
  then show ?thesis using assms(2)
    by (simp add: trace_of_def perform_enabled [OF assms(1)] try_body_today
        auto_attach_post_raises finish_def)
next
  case (update_raises ents x)
  then show ?thesis using assms(2)
    by (simp add: trace_of_def perform_enabled [OF assms(1)] try_body_today
        auto_attach_update_raises finish_def)
next
  case (returns ents r)
  then show ?thesis using assms(2)
    by (simp add: trace_of_def perform_enabled [OF assms(1)] try_body_today
        auto_attach_returns finish_def)
qed

lemma bind_in_calls: "Bind u t \<in> set tr \<longleftrightarrow> Bind u t \<in> set (calls tr)"
  by (simp add: calls_def)

lemma update_in_calls: "CertUpdate \<in> set tr \<longleftrightarrow> CertUpdate \<in> set (calls tr)"
  by (simp add: calls_def)

lemma bind_count: "length (bind_calls (trace_of e)) \<le> 1"
  using calls_shape [of e] by (auto simp: bind_calls_calls)

lemma bind_in_traceD:
  assumes "Bind u t \<in> set (trace_of e)"
  shows "u = identity_uuid e \<and> remediation_instant e = Some t \<and> autoheal_enabled e \<and>
         plugin_run e ''pre_auto_attach'' (identity_uuid e) None = None"
  using calls_shape [of e] assms unfolding bind_in_calls [of u t "trace_of e"] by auto

lemma finish_raised: "fst (finish p) = Raised y \<Longrightarrow> \<not> is_exception y"
  by (cases p) (auto simp: finish_def split: sum.splits if_splits)

lemma enabled_raised:
  assumes "autoheal_enabled e" and "result_of e = Raised y"
  shows "\<not> is_exception y"
  using assms(2) finish_raised unfolding result_of_def perform_enabled [OF assms(1)] by blast

section \<open>The properties of the specification\<close>

text \<open>
  C1, as amended. When auto-heal is enabled and today is invalid, the dispatch of
  \<open>pre_auto_attach\<close> is the first call after the validity check, at most one bind is
  issued, the cycle does not depend on \<open>compliant_until\<close>, and no call or log line
  mentions an instant other than today. If the pre-hook does not raise, exactly one bind
  is issued, for today, right after the pre-hook. If the bind moreover returns, the
  dispatch of \<open>post_auto_attach\<close> follows it with the entitlements the bind returned.
\<close>

theorem invalid_today_heals_for_today:
  assumes "autoheal_enabled e" and "is_valid e = Inr False"
  shows "take 3 (calls (trace_of e)) =
           [GetConsumer (identity_uuid e), IsValid,
            RunHook ''pre_auto_attach'' (identity_uuid e) None] \<and>
         length (bind_calls (trace_of e)) \<le> 1 \<and>
         (plugin_run e ''pre_auto_attach'' (identity_uuid e) None = None \<longrightarrow>
            bind_calls (trace_of e) = [Bind (identity_uuid e) (now e)] \<and>
            take 4 (calls (trace_of e)) =
              [GetConsumer (identity_uuid e), IsValid,
               RunHook ''pre_auto_attach'' (identity_uuid e) None,
               Bind (identity_uuid e) (now e)]) \<and>
         (plugin_run e ''pre_auto_attach'' (identity_uuid e) None = None \<and>
          uep_bind e (identity_uuid e) (now e) = Inr ents \<longrightarrow>
            hook_calls (trace_of e) =
              [RunHook ''pre_auto_attach'' (identity_uuid e) None,
               RunHook ''post_auto_attach'' (identity_uuid e) (Some ents)] \<and>
            take 5 (calls (trace_of e)) =
              [GetConsumer (identity_uuid e), IsValid,
               RunHook ''pre_auto_attach'' (identity_uuid e) None,
               Bind (identity_uuid e) (now e),
               RunHook ''post_auto_attach'' (identity_uuid e) (Some ents)]) \<and>
         perform (e\<lparr>compliant_until := cu\<rparr>) = perform e \<and>
         (\<forall>ev \<in> set (trace_of e). \<forall>t \<in> set (instants_of ev). t = now e)"
proof -
  have "take 3 (calls (trace_of e)) =
           [GetConsumer (identity_uuid e), IsValid,
            RunHook ''pre_auto_attach'' (identity_uuid e) None] \<and>
         (plugin_run e ''pre_auto_attach'' (identity_uuid e) None = None \<longrightarrow>
            bind_calls (trace_of e) = [Bind (identity_uuid e) (now e)] \<and>
            take 4 (calls (trace_of e)) =
              [GetConsumer (identity_uuid e), IsValid,
               RunHook ''pre_auto_attach'' (identity_uuid e) None,
               Bind (identity_uuid e) (now e)]) \<and>
         (plugin_run e ''pre_auto_attach'' (identity_uuid e) None = None \<and>
          uep_bind e (identity_uuid e) (now e) = Inr ents \<longrightarrow>
            hook_calls (trace_of e) =
              [RunHook ''pre_auto_attach'' (identity_uuid e) None,
               RunHook ''post_auto_attach'' (identity_uuid e) (Some ents)] \<and>
            take 5 (calls (trace_of e)) =
              [GetConsumer (identity_uuid e), IsValid,
               RunHook ''pre_auto_attach'' (identity_uuid e) None,
               Bind (identity_uuid e) (now e),
               RunHook ''post_auto_attach'' (identity_uuid e) (Some ents)])"
    using assms(1) today_instant [OF assms(2)]
    by (cases rule: heal_paths) (simp_all add: bind_calls_calls hook_calls_calls)
  then show ?thesis
    using bind_count [of e] today_ignores_until [OF assms(2)] today_instants [OF assms]
    by simp
qed

theorem invalid_today_heals_for_today_witness:
  "autoheal_enabled cycle \<and> is_valid cycle = Inr False \<and>
   plugin_run cycle ''pre_auto_attach'' ''c0ffee'' None = None \<and>
   uep_bind cycle ''c0ffee'' jan10 = Inr pool_grant \<and>
   bind_calls (trace_of cycle) = [Bind ''c0ffee'' jan10] \<and>
   hook_calls (trace_of cycle) =
     [RunHook ''pre_auto_attach'' ''c0ffee'' None,
      RunHook ''post_auto_attach'' ''c0ffee'' (Some pool_grant)] \<and>
   take 5 (calls (trace_of cycle)) =
     [GetConsumer ''c0ffee'', IsValid, RunHook ''pre_auto_attach'' ''c0ffee'' None,
      Bind ''c0ffee'' jan10, RunHook ''post_auto_attach'' ''c0ffee'' (Some pool_grant)] \<and>
   perform (cycle\<lparr>compliant_until := Some jan10\<rparr>) = perform cycle \<and>
   Bind ''c0ffee'' (jan10 + one_day) \<notin> set (trace_of cycle)"
proof -
  have h1: "autoheal_enabled cycle" by (simp add: cycle_defs)
  have h2: "is_valid cycle = Inr False" by (simp add: cycle_defs)
  have h3: "plugin_run cycle ''pre_auto_attach'' ''c0ffee'' None = None"
    by (simp add: cycle_defs)
  have h4: "uep_bind cycle ''c0ffee'' jan10 = Inr pool_grant" by (simp add: cycle_defs)
  have id: "identity_uuid cycle = ''c0ffee''" "now cycle = jan10" by (simp_all add: cycle_defs)
  note inst = invalid_today_heals_for_today [OF h1 h2, of pool_grant "Some jan10", unfolded id]
  from inst have "\<forall>ev \<in> set (trace_of cycle). \<forall>t \<in> set (instants_of ev). t = jan10"
    by simp
  then have "Bind ''c0ffee'' (jan10 + one_day) \<notin> set (trace_of cycle)"
    by (force simp: one_day_def)
  then show ?thesis using h1 h2 h3 h4 inst by simp
qed

text \<open>
  C1 as stated fails: with today invalid and a pre-hook that raises, no bind is issued;
  with a bind that raises, \<open>post_auto_attach\<close> is never dispatched.
\<close>

theorem invalid_today_counterexample:
  "autoheal_enabled (cycle\<lparr>plugin_run := pre_hook_fails\<rparr>) \<and>
   is_valid (cycle\<lparr>plugin_run := pre_hook_fails\<rparr>) = Inr False \<and>
   bind_calls (trace_of (cycle\<lparr>plugin_run := pre_hook_fails\<rparr>)) = [] \<and>
   autoheal_enabled (cycle\<lparr>uep_bind := bind_fails\<rparr>) \<and>
   is_valid (cycle\<lparr>uep_bind := bind_fails\<rparr>) = Inr False \<and>
   hook_calls (trace_of (cycle\<lparr>uep_bind := bind_fails\<rparr>)) =
     [RunHook ''pre_auto_attach'' ''c0ffee'' None]"
proof -
  let ?p = "cycle\<lparr>plugin_run := pre_hook_fails\<rparr>"
  let ?b = "cycle\<lparr>uep_bind := bind_fails\<rparr>"
  have p: "autoheal_enabled ?p" "is_valid ?p = Inr False"
    "remediation_instant ?p = Some jan10"
    "plugin_run ?p ''pre_auto_attach'' (identity_uuid ?p) None = Some (Exn ''HookError'' ''pre'')"
    by (simp_all add: cycle_defs)
  have b: "autoheal_enabled ?b" "is_valid ?b = Inr False"
    "remediation_instant ?b = Some jan10"
    "plugin_run ?b ''pre_auto_attach'' (identity_uuid ?b) None = None"
    "uep_bind ?b (identity_uuid ?b) jan10 = Inl (Exn ''ServiceError'' ''no pools'')"
    by (simp_all add: cycle_defs)
  have ib: "identity_uuid ?b = ''c0ffee''" by (simp add: cycle_defs)
  from heal_pre_raises [OF p(1,3,4)] have "bind_calls (trace_of ?p) = []"
    by (simp add: bind_calls_calls)
  moreover from heal_bind_raises [OF b(1,3,4,5)]
  have "hook_calls (trace_of ?b) = [RunHook ''pre_auto_attach'' ''c0ffee'' None]"
    unfolding ib by (simp add: hook_calls_calls)
  ultimately show ?thesis using p(1,2) b(1,2) by simp
qed

text \<open>
  C2. In every cycle at most one bind is issued. The today branch and the tomorrow branch
  exclude each other: no trace holds a bind for today and a bind for tomorrow. When the
  today check fires (the sorter says invalid), no bind for tomorrow is issued and the
  cycle does not depend on \<open>compliant_until\<close> at all.
\<close>

theorem at_most_one_bind:
  "length (bind_calls (trace_of e)) \<le> 1 \<and>
   \<not> (Bind u (now e) \<in> set (trace_of e) \<and> Bind u' (now e + one_day) \<in> set (trace_of e)) \<and>
   (is_valid e = Inr False \<longrightarrow>
      Bind u (now e + one_day) \<notin> set (trace_of e) \<and>
      perform (e\<lparr>compliant_until := cu\<rparr>) = perform e)"
proof -
  have "\<not> (Bind u (now e) \<in> set (trace_of e) \<and> Bind u' (now e + one_day) \<in> set (trace_of e))"
    using bind_in_traceD [of u "now e" e] bind_in_traceD [of u' "now e + one_day" e]
    by (auto simp: one_day_def)
  moreover have "Bind u (now e + one_day) \<notin> set (trace_of e)" if "is_valid e = Inr False"
    using bind_in_traceD [of u "now e + one_day" e] today_instant [OF that]
    by (auto simp: one_day_def)
  ultimately show ?thesis using bind_count today_ignores_until by blast
qed

theorem at_most_one_bind_witness:
  "is_valid cycle = Inr False \<and>
   length (bind_calls (trace_of cycle)) \<le> 1 \<and>
   Bind ''c0ffee'' (jan10 + one_day) \<notin> set (trace_of cycle) \<and>
   perform (cycle\<lparr>compliant_until := Some jan10\<rparr>) = perform cycle"
proof -
  have h: "is_valid cycle = Inr False" by (simp add: cycle_def)
  show ?thesis
    using h at_most_one_bind [of cycle "''c0ffee''" "''c0ffee''" "Some jan10"]
    by (simp add: cycle_def)
qed

text \<open>
  C3, as amended. When auto-heal is enabled, today is valid and \<open>compliant_until\<close> is
  present: if tomorrow (today plus 24 hours) is later than \<open>compliant_until\<close>, the
  dispatch of \<open>pre_auto_attach\<close> is the first call after the validity check; if it does
  not raise, exactly one bind is issued, for tomorrow, right after it; if the bind
  moreover returns, \<open>post_auto_attach\<close> follows with the entitlements returned. If
  tomorrow is not later than \<open>compliant_until\<close>, no bind is issued and no hook is
  dispatched.
\<close>

theorem valid_today_heals_for_tomorrow:
  assumes "autoheal_enabled e" and "is_valid e = Inr True" and "compliant_until e = Some c"
  shows "(now e + one_day > c \<longrightarrow>
           take 3 (calls (trace_of e)) =
             [GetConsumer (identity_uuid e), IsValid,
              RunHook ''pre_auto_attach'' (identity_uuid e) None] \<and>
           (plugin_run e ''pre_auto_attach'' (identity_uuid e) None = None \<longrightarrow>
              bind_calls (trace_of e) = [Bind (identity_uuid e) (now e + one_day)] \<and>
              take 4 (calls (trace_of e)) =
                [GetConsumer (identity_uuid e), IsValid,
                 RunHook ''pre_auto_attach'' (identity_uuid e) None,
                 Bind (identity_uuid e) (now e + one_day)]) \<and>
           (plugin_run e ''pre_auto_attach'' (identity_uuid e) None = None \<and>
            uep_bind e (identity_uuid e) (now e + one_day) = Inr ents \<longrightarrow>
              hook_calls (trace_of e) =
                [RunHook ''pre_auto_attach'' (identity_uuid e) None,
                 RunHook ''post_auto_attach'' (identity_uuid e) (Some ents)] \<and>
              take 5 (calls (trace_of e)) =
                [GetConsumer (identity_uuid e), IsValid,
                 RunHook ''pre_auto_attach'' (identity_uuid e) None,
                 Bind (identity_uuid e) (now e + one_day),
                 RunHook ''post_auto_attach'' (identity_uuid e) (Some ents)])) \<and>
         (now e + one_day \<le> c \<longrightarrow>
            bind_calls (trace_of e) = [] \<and> hook_calls (trace_of e) = [])"
proof (cases "now e + one_day > c")
  case True
  have "take 3 (calls (trace_of e)) =
             [GetConsumer (identity_uuid e), IsValid,
              RunHook ''pre_auto_attach'' (identity_uuid e) None] \<and>
           (plugin_run e ''pre_auto_attach'' (identity_uuid e) None = None \<longrightarrow>
              bind_calls (trace_of e) = [Bind (identity_uuid e) (now e + one_day)] \<and>
              take 4 (calls (trace_of e)) =
                [GetConsumer (identity_uuid e), IsValid,
                 RunHook ''pre_auto_attach'' (identity_uuid e) None,
                 Bind (identity_uuid e) (now e + one_day)]) \<and>
           (plugin_run e ''pre_auto_attach'' (identity_uuid e) None = None \<and>
            uep_bind e (identity_uuid e) (now e + one_day) = Inr ents \<longrightarrow>
              hook_calls (trace_of e) =
                [RunHook ''pre_auto_attach'' (identity_uuid e) None,
                 RunHook ''post_auto_attach'' (identity_uuid e) (Some ents)] \<and>
              take 5 (calls (trace_of e)) =
                [GetConsumer (identity_uuid e), IsValid,
                 RunHook ''pre_auto_attach'' (identity_uuid e) None,
                 Bind (identity_uuid e) (now e + one_day),
                 RunHook ''post_auto_attach'' (identity_uuid e) (Some ents)])"
    using assms(1) tomorrow_instant [OF assms(2,3) True]
    by (cases rule: heal_paths) (simp_all add: bind_calls_calls hook_calls_calls)
  with True show ?thesis by simp
next
  case False
  then have le: "now e + one_day \<le> c" by simp
  from no_heal [OF assms(1,2) covered_instant [OF assms(2,3) le]] False
  show ?thesis by (simp add: bind_calls_calls hook_calls_calls)
qed

theorem valid_today_heals_for_tomorrow_witness:
  "jan10 + one_day > jan10 + half_day \<and>
   bind_calls (trace_of (cycle\<lparr>is_valid := Inr True, compliant_until := Some (jan10 + half_day)\<rparr>))
     = [Bind ''c0ffee'' (jan10 + one_day)] \<and>
   hook_calls (trace_of (cycle\<lparr>is_valid := Inr True, compliant_until := Some (jan10 + half_day)\<rparr>))
     = [RunHook ''pre_auto_attach'' ''c0ffee'' None,
        RunHook ''post_auto_attach'' ''c0ffee'' (Some pool_grant)] \<and>
   jan10 + one_day \<le> jan10 + 2 * one_day \<and>
   bind_calls (trace_of (cycle\<lparr>is_valid := Inr True, compliant_until := Some (jan10 + 2 * one_day)\<rparr>))
     = [] \<and>
   hook_calls (trace_of (cycle\<lparr>is_valid := Inr True, compliant_until := Some (jan10 + 2 * one_day)\<rparr>))
     = []"
proof -
  let ?a = "cycle\<lparr>is_valid := Inr True, compliant_until := Some (jan10 + half_day)\<rparr>"
  let ?b = "cycle\<lparr>is_valid := Inr True, compliant_until := Some (jan10 + 2 * one_day)\<rparr>"
  have a: "autoheal_enabled ?a" "is_valid ?a = Inr True"
    "compliant_until ?a = Some (jan10 + half_day)"
    by (simp_all add: cycle_defs)
  have b: "autoheal_enabled ?b" "is_valid ?b = Inr True"
    "compliant_until ?b = Some (jan10 + 2 * one_day)"
    by (simp_all add: cycle_defs)
  have ia: "identity_uuid ?a = ''c0ffee''" "now ?a = jan10"
    "plugin_run ?a ''pre_auto_attach'' ''c0ffee'' None = None"
    "uep_bind ?a ''c0ffee'' (jan10 + one_day) = Inr pool_grant"
    by (simp_all add: cycle_def no_hook_fails_def bind_ok_def)
  have ib: "now ?b = jan10" by (simp add: cycle_def)
  have lt: "jan10 + one_day > jan10 + half_day" by (simp add: one_day_def half_day_def)
  have le: "jan10 + one_day \<le> jan10 + 2 * one_day" by (simp add: one_day_def)
  show ?thesis
    using lt le valid_today_heals_for_tomorrow [OF a, of pool_grant]
      valid_today_heals_for_tomorrow [OF b, of pool_grant]
    unfolding ia ib by simp
qed

text \<open>
  C3 as stated fails: with today valid, \<open>compliant_until\<close> twelve hours away and a
  pre-hook that raises, no bind is issued; with a bind that raises, \<open>post_auto_attach\<close>
  is never dispatched.
\<close>

theorem valid_today_counterexample:
  "is_valid (cycle\<lparr>is_valid := Inr True, compliant_until := Some (jan10 + half_day),
      plugin_run := pre_hook_fails\<rparr>) = Inr True \<and>
   compliant_until (cycle\<lparr>is_valid := Inr True, compliant_until := Some (jan10 + half_day),
      plugin_run := pre_hook_fails\<rparr>) = Some (jan10 + half_day) \<and>
   jan10 + one_day > jan10 + half_day \<and>
   autoheal_enabled (cycle\<lparr>is_valid := Inr True, compliant_until := Some (jan10 + half_day),
      plugin_run := pre_hook_fails\<rparr>) \<and>
   bind_calls (trace_of (cycle\<lparr>is_valid := Inr True, compliant_until := Some (jan10 + half_day),
      plugin_run := pre_hook_fails\<rparr>)) = [] \<and>
   hook_calls (trace_of (cycle\<lparr>is_valid := Inr True, compliant_until := Some (jan10 + half_day),
      uep_bind := bind_fails\<rparr>)) = [RunHook ''pre_auto_attach'' ''c0ffee'' None]"
proof -
  let ?p = "cycle\<lparr>is_valid := Inr True, compliant_until := Some (jan10 + half_day),
      plugin_run := pre_hook_fails\<rparr>"
  let ?b = "cycle\<lparr>is_valid := Inr True, compliant_until := Some (jan10 + half_day),
      uep_bind := bind_fails\<rparr>"
  have lt: "jan10 + one_day > jan10 + half_day" by (simp add: one_day_def half_day_def)
  have p: "autoheal_enabled ?p" "is_valid ?p = Inr True"
    "compliant_until ?p = Some (jan10 + half_day)"
    "plugin_run ?p ''pre_auto_attach'' (identity_uuid ?p) None = Some (Exn ''HookError'' ''pre'')"
    "now ?p = jan10"
    by (simp_all add: cycle_def lookup_on_def consumer_on_def autoheal_enabled_def
        autoheal_disabled_def pre_hook_fails_def)
  have b: "autoheal_enabled ?b" "is_valid ?b = Inr True"
    "compliant_until ?b = Some (jan10 + half_day)"
    "plugin_run ?b ''pre_auto_attach'' (identity_uuid ?b) None = None"
    "uep_bind ?b (identity_uuid ?b) (now ?b + one_day) = Inl (Exn ''ServiceError'' ''no pools'')"
    "now ?b = jan10" "identity_uuid ?b = ''c0ffee''"
    by (simp_all add: cycle_def lookup_on_def consumer_on_def autoheal_enabled_def
        autoheal_disabled_def no_hook_fails_def bind_fails_def)
  have tp: "remediation_instant ?p = Some (now ?p + one_day)"
    using lt by (intro tomorrow_instant [OF p(2,3)]) (simp add: p(5))
  have tb: "remediation_instant ?b = Some (now ?b + one_day)"
    using lt by (intro tomorrow_instant [OF b(2,3)]) (simp add: b(6))
  from heal_pre_raises [OF p(1) tp p(4)] have "bind_calls (trace_of ?p) = []"
    by (simp add: bind_calls_calls)
  moreover from heal_bind_raises [OF b(1) tb b(4,5)]
  have "hook_calls (trace_of ?b) = [RunHook ''pre_auto_attach'' ''c0ffee'' None]"
    unfolding b(7) by (simp add: hook_calls_calls)
  ultimately show ?thesis using p(1,2,3) lt by simp
qed

text \<open>
  C4. For an account whose \<open>autoheal\<close> entry is false or absent, \<open>perform\<close> issues no
  bind and dispatches no hook. What it returns, however, is the integer \<open>0\<close> of line 87,
  which is not a report with empty grants and empty errors.
\<close>

theorem disabled_account_returns_zero:
  "getConsumer (cycle\<lparr>getConsumer := lookup_off\<rparr>) ''c0ffee'' = Inr consumer_off \<and>
   consumer_off ''autoheal'' = Some (JBool False) \<and>
   bind_calls (trace_of (cycle\<lparr>getConsumer := lookup_off\<rparr>)) = [] \<and>
   hook_calls (trace_of (cycle\<lparr>getConsumer := lookup_off\<rparr>)) = [] \<and>
   result_of (cycle\<lparr>getConsumer := lookup_off\<rparr>) = Returned (RInt 0) \<and>
   result_of (cycle\<lparr>getConsumer := lookup_off\<rparr>) \<noteq>
     Returned (RReport \<lparr>grants = [], exceptions = []\<rparr>) \<and>
   getConsumer (cycle\<lparr>getConsumer := lookup_bare\<rparr>) ''c0ffee'' = Inr consumer_bare \<and>
   consumer_bare ''autoheal'' = None \<and>
   result_of (cycle\<lparr>getConsumer := lookup_bare\<rparr>) = Returned (RInt 0)"
proof -
  let ?a = "cycle\<lparr>getConsumer := lookup_off\<rparr>"
  let ?b = "cycle\<lparr>getConsumer := lookup_bare\<rparr>"
  have a: "getConsumer ?a (identity_uuid ?a) = Inr consumer_off" "autoheal_disabled consumer_off"
    by (simp_all add: cycle_defs)
  have b: "getConsumer ?b (identity_uuid ?b) = Inr consumer_bare" "autoheal_disabled consumer_bare"
    by (simp_all add: cycle_defs)
  have "result_of ?a = Returned (RInt 0)"
    and "bind_calls (trace_of ?a) = []" and "hook_calls (trace_of ?a) = []"
    by (simp_all add: perform_disabled [OF a] read_defs)
  moreover have "result_of ?b = Returned (RInt 0)"
    by (simp add: perform_disabled [OF b] read_defs)
  ultimately show ?thesis by (simp add: cycle_defs)
qed

text \<open>
  C5, as amended. What the account lookup raises is raised by \<open>perform\<close>: the lookup
  stands before the \<open>try\<close> statement. Once the lookup has returned an account with
  auto-heal enabled: whatever the validity check, the dispatch of a hook or the bind
  raises, the raising call is the last call of the cycle; if it is an instance of
  \<open>Exception\<close>, \<open>perform\<close> returns the report with it as the one entry of the error list;
  if it is not (a \<open>KeyboardInterrupt\<close>, a \<open>SystemExit\<close>), it is raised by \<open>perform\<close>.
  \<open>perform\<close> never raises an instance of \<open>Exception\<close> after the lookup.
\<close>

theorem exceptions_after_lookup_are_reported:
  "(getConsumer e (identity_uuid e) = Inl x \<longrightarrow>
      perform e = (Raised x, [GetConsumer (identity_uuid e)])) \<and>
   (autoheal_enabled e \<longrightarrow>
      (\<forall>y. result_of e = Raised y \<longrightarrow> \<not> is_exception y) \<and>
      (is_valid e = Inl x \<longrightarrow>
         calls (trace_of e) = [GetConsumer (identity_uuid e), IsValid] \<and>
         (is_exception x \<longrightarrow>
            result_of e = Returned (RReport \<lparr>grants = [], exceptions = [x]\<rparr>)) \<and>
         (\<not> is_exception x \<longrightarrow> result_of e = Raised x)) \<and>
      (remediation_instant e = Some t \<and>
       plugin_run e ''pre_auto_attach'' (identity_uuid e) None = Some x \<longrightarrow>
         calls (trace_of e) =
           [GetConsumer (identity_uuid e), IsValid,
            RunHook ''pre_auto_attach'' (identity_uuid e) None] \<and>
         (is_exception x \<longrightarrow>
            result_of e = Returned (RReport \<lparr>grants = [], exceptions = [x]\<rparr>)) \<and>
         (\<not> is_exception x \<longrightarrow> result_of e = Raised x)) \<and>
      (remediation_instant e = Some t \<and>
       plugin_run e ''pre_auto_attach'' (identity_uuid e) None = None \<and>
       uep_bind e (identity_uuid e) t = Inl x \<longrightarrow>
         calls (trace_of e) =
           [GetConsumer (identity_uuid e), IsValid,
            RunHook ''pre_auto_attach'' (identity_uuid e) None, Bind (identity_uuid e) t] \<and>
         (is_exception x \<longrightarrow>
            result_of e = Returned (RReport \<lparr>grants = [], exceptions = [x]\<rparr>)) \<and>
         (\<not> is_exception x \<longrightarrow> result_of e = Raised x)) \<and>
      (remediation_instant e = Some t \<and>
       plugin_run e ''pre_auto_attach'' (identity_uuid e) None = None \<and>
       uep_bind e (identity_uuid e) t = Inr ents \<and>
       plugin_run e ''post_auto_attach'' (identity_uuid e) (Some ents) = Some x \<longrightarrow>
         calls (trace_of e) =
           [GetConsumer (identity_uuid e), IsValid,
            RunHook ''pre_auto_attach'' (identity_uuid e) None, Bind (identity_uuid e) t,
            RunHook ''post_auto_attach'' (identity_uuid e) (Some ents)] \<and>
         (is_exception x \<longrightarrow>
            result_of e = Returned (RReport \<lparr>grants = [], exceptions = [x]\<rparr>)) \<and>
         (\<not> is_exception x \<longrightarrow> result_of e = Raised x)))"
proof -
  have r: "(is_exception x \<longrightarrow>
              result_of e = Returned (RReport \<lparr>grants = [], exceptions = [x]\<rparr>)) \<and>
           (\<not> is_exception x \<longrightarrow> result_of e = Raised x)"
    if "result_of e = raised_in_try x"
    using that by (simp add: raised_in_try_def)
  show ?thesis
    using perform_lookup_raises [of e x] enabled_raised [of e]
      check_raises [of e x] heal_pre_raises [of e t x]
      heal_bind_raises [of e t x] heal_post_raises [of e t ents x] r
    by blast
qed

theorem exceptions_after_lookup_are_reported_witness:
  "autoheal_enabled (cycle\<lparr>is_valid := Inl (Exn ''ServiceError'' ''timeout'')\<rparr>) \<and>
   is_exception (Exn ''ServiceError'' ''timeout'') \<and>
   result_of (cycle\<lparr>is_valid := Inl (Exn ''ServiceError'' ''timeout'')\<rparr>) =
     Returned (RReport \<lparr>grants = [], exceptions = [Exn ''ServiceError'' ''timeout'']\<rparr>) \<and>
   calls (trace_of (cycle\<lparr>is_valid := Inl (Exn ''ServiceError'' ''timeout'')\<rparr>)) =
     [GetConsumer ''c0ffee'', IsValid] \<and>
   autoheal_enabled (cycle\<lparr>plugin_run := post_hook_fails\<rparr>) \<and>
   remediation_instant (cycle\<lparr>plugin_run := post_hook_fails\<rparr>) = Some jan10 \<and>
   result_of (cycle\<lparr>plugin_run := post_hook_fails\<rparr>) =
     Returned (RReport \<lparr>grants = [], exceptions = [Exn ''HookError'' ''post'']\<rparr>) \<and>
   calls (trace_of (cycle\<lparr>plugin_run := post_hook_fails\<rparr>)) =
     [GetConsumer ''c0ffee'', IsValid, RunHook ''pre_auto_attach'' ''c0ffee'' None,
      Bind ''c0ffee'' jan10, RunHook ''post_auto_attach'' ''c0ffee'' (Some pool_grant)] \<and>
   autoheal_enabled (cycle\<lparr>plugin_run := pre_hook_interrupted\<rparr>) \<and>
   \<not> is_exception (BaseExn ''KeyboardInterrupt'' []) \<and>
   result_of (cycle\<lparr>plugin_run := pre_hook_interrupted\<rparr>) =
     Raised (BaseExn ''KeyboardInterrupt'' []) \<and>
   perform (cycle\<lparr>getConsumer := lookup_fails\<rparr>) =
     (Raised (Exn ''ServiceError'' ''connection refused''), [GetConsumer ''c0ffee''])"
proof -
  let ?v = "cycle\<lparr>is_valid := Inl (Exn ''ServiceError'' ''timeout'')\<rparr>"
  let ?p = "cycle\<lparr>plugin_run := post_hook_fails\<rparr>"
  let ?k = "cycle\<lparr>plugin_run := pre_hook_interrupted\<rparr>"
  let ?l = "cycle\<lparr>getConsumer := lookup_fails\<rparr>"
  have v: "autoheal_enabled ?v" "is_valid ?v = Inl (Exn ''ServiceError'' ''timeout'')"
    "identity_uuid ?v = ''c0ffee''"
    by (simp_all add: cycle_defs)
  have p: "autoheal_enabled ?p" "remediation_instant ?p = Some jan10"
    "plugin_run ?p ''pre_auto_attach'' ''c0ffee'' None = None"
    "uep_bind ?p ''c0ffee'' jan10 = Inr pool_grant"
    "plugin_run ?p ''post_auto_attach'' ''c0ffee'' (Some pool_grant) = Some (Exn ''HookError'' ''post'')"
    "identity_uuid ?p = ''c0ffee''"
    by (simp_all add: cycle_defs)
  have k: "autoheal_enabled ?k" "remediation_instant ?k = Some jan10"
    "plugin_run ?k ''pre_auto_attach'' ''c0ffee'' None = Some (BaseExn ''KeyboardInterrupt'' [])"
    "identity_uuid ?k = ''c0ffee''"
    by (simp_all add: cycle_defs)
  have l: "getConsumer ?l ''c0ffee'' = Inl (Exn ''ServiceError'' ''connection refused'')"
    "identity_uuid ?l = ''c0ffee''"
    by (simp_all add: cycle_defs)
  show ?thesis
    using v p k l
      exceptions_after_lookup_are_reported
        [of ?v "Exn ''ServiceError'' ''timeout''" jan10 pool_grant, unfolded v(3)]
      exceptions_after_lookup_are_reported
        [of ?p "Exn ''HookError'' ''post''" jan10 pool_grant, unfolded p(6)]
      exceptions_after_lookup_are_reported
        [of ?k "BaseExn ''KeyboardInterrupt'' []" jan10 pool_grant, unfolded k(4)]
      exceptions_after_lookup_are_reported
        [of ?l "Exn ''ServiceError'' ''connection refused''" jan10 pool_grant, unfolded l(2)]
    by simp
qed

text \<open>
  C5 as stated fails: what the account lookup raises is raised by \<open>perform\<close> to its
  caller, and no report is returned; and a \<open>KeyboardInterrupt\<close> raised by the dispatch of
  a hook passes \<open>except Exception\<close> and is raised by \<open>perform\<close> as well.
\<close>

theorem lookup_error_counterexample:
  "getConsumer (cycle\<lparr>getConsumer := lookup_fails\<rparr>) ''c0ffee'' =
     Inl (Exn ''ServiceError'' ''connection refused'') \<and>
   result_of (cycle\<lparr>getConsumer := lookup_fails\<rparr>) =
     Raised (Exn ''ServiceError'' ''connection refused'') \<and>
   autoheal_enabled (cycle\<lparr>plugin_run := pre_hook_interrupted\<rparr>) \<and>
   is_valid (cycle\<lparr>plugin_run := pre_hook_interrupted\<rparr>) = Inr False \<and>
   plugin_run (cycle\<lparr>plugin_run := pre_hook_interrupted\<rparr>) ''pre_auto_attach'' ''c0ffee'' None =
     Some (BaseExn ''KeyboardInterrupt'' []) \<and>
   result_of (cycle\<lparr>plugin_run := pre_hook_interrupted\<rparr>) =
     Raised (BaseExn ''KeyboardInterrupt'' [])"
proof -
  let ?l = "cycle\<lparr>getConsumer := lookup_fails\<rparr>"
  let ?k = "cycle\<lparr>plugin_run := pre_hook_interrupted\<rparr>"
  have l: "getConsumer ?l (identity_uuid ?l) = Inl (Exn ''ServiceError'' ''connection refused'')"
    by (simp add: cycle_defs)
  have k: "autoheal_enabled ?k" "remediation_instant ?k = Some jan10"
    "plugin_run ?k ''pre_auto_attach'' (identity_uuid ?k) None =
       Some (BaseExn ''KeyboardInterrupt'' [])"
    by (simp_all add: cycle_defs)
  have "result_of ?l = Raised (Exn ''ServiceError'' ''connection refused'')"
    by (simp add: perform_lookup_raises [OF l] result_of_def)
  moreover from heal_pre_raises [OF k]
  have "result_of ?k = Raised (BaseExn ''KeyboardInterrupt'' [])"
    by (simp add: raised_in_try_def)
  ultimately show ?thesis by (simp add: cycle_defs)
qed

text \<open>
  C6. When auto-heal is enabled, today is invalid, the pre-hook succeeds and the bind
  raises \<open>x\<close>, an instance of \<open>Exception\<close> as a \<open>ServiceError\<close> is, \<open>perform\<close> returns a
  report: its error list holds \<open>x\<close> and its grants are empty. The bind is the last call
  of the cycle.
\<close>

theorem bind_error_is_reported:
  assumes "autoheal_enabled e" and "is_valid e = Inr False"
    and "plugin_run e ''pre_auto_attach'' (identity_uuid e) None = None"
    and "uep_bind e (identity_uuid e) (now e) = Inl x" and "is_exception x"
  shows "result_of e = Returned (RReport \<lparr>grants = [], exceptions = [x]\<rparr>) \<and>
         calls (trace_of e) =
           [GetConsumer (identity_uuid e), IsValid,
            RunHook ''pre_auto_attach'' (identity_uuid e) None,
            Bind (identity_uuid e) (now e)]"
  using heal_bind_raises [OF assms(1) today_instant [OF assms(2)] assms(3,4)] assms(5)
  by (simp add: raised_in_try_def)

theorem bind_error_is_reported_witness:
  "autoheal_enabled (cycle\<lparr>uep_bind := bind_fails\<rparr>) \<and>
   is_valid (cycle\<lparr>uep_bind := bind_fails\<rparr>) = Inr False \<and>
   uep_bind (cycle\<lparr>uep_bind := bind_fails\<rparr>) ''c0ffee'' jan10 =
     Inl (Exn ''ServiceError'' ''no pools'') \<and>
   is_exception (Exn ''ServiceError'' ''no pools'') \<and>
   result_of (cycle\<lparr>uep_bind := bind_fails\<rparr>) =
     Returned (RReport \<lparr>grants = [], exceptions = [Exn ''ServiceError'' ''no pools'']\<rparr>)"
proof -
  let ?e = "cycle\<lparr>uep_bind := bind_fails\<rparr>"
  have h1: "autoheal_enabled ?e" by (simp add: cycle_defs)
  have h2: "is_valid ?e = Inr False" by (simp add: cycle_defs)
  have h3: "plugin_run ?e ''pre_auto_attach'' (identity_uuid ?e) None = None"
    by (simp add: cycle_defs)
  have h4: "uep_bind ?e (identity_uuid ?e) (now ?e) = Inl (Exn ''ServiceError'' ''no pools'')"
    by (simp add: cycle_defs)
  have h5: "is_exception (Exn ''ServiceError'' ''no pools'')" by simp
  have h6: "uep_bind ?e ''c0ffee'' jan10 = Inl (Exn ''ServiceError'' ''no pools'')"
    by (simp add: cycle_defs)
  show ?thesis using h1 h2 h5 h6 bind_error_is_reported [OF h1 h2 h3 h4 h5] by simp
qed

text \<open>
  C7, as amended. In every cycle in which a bind is issued and returns, and the dispatch
  of \<open>post_auto_attach\<close> that follows it does not raise, the certificate update is
  invoked next, as the last call of the cycle.
\<close>

theorem update_follows_bind_and_post_hook:
  assumes "Bind u t \<in> set (trace_of e)" and "uep_bind e u t = Inr ents"
    and "plugin_run e ''post_auto_attach'' u (Some ents) = None"
  shows "calls (trace_of e) =
           [GetConsumer u, IsValid, RunHook ''pre_auto_attach'' u None, Bind u t,
            RunHook ''post_auto_attach'' u (Some ents), CertUpdate]"
proof -
  from bind_in_traceD [OF assms(1)]
  have u: "u = identity_uuid e" and t: "remediation_instant e = Some t"
    and en: "autoheal_enabled e"
    and pre: "plugin_run e ''pre_auto_attach'' (identity_uuid e) None = None"
    by simp_all
  from en t show ?thesis
    using assms(2,3) pre unfolding u by (cases rule: heal_paths) simp_all
qed

theorem update_follows_bind_and_post_hook_witness:
  "Bind ''c0ffee'' jan10 \<in> set (trace_of cycle) \<and>
   uep_bind cycle ''c0ffee'' jan10 = Inr pool_grant \<and>
   plugin_run cycle ''post_auto_attach'' ''c0ffee'' (Some pool_grant) = None \<and>
   calls (trace_of cycle) =
     [GetConsumer ''c0ffee'', IsValid, RunHook ''pre_auto_attach'' ''c0ffee'' None,
      Bind ''c0ffee'' jan10, RunHook ''post_auto_attach'' ''c0ffee'' (Some pool_grant),
      CertUpdate]"
proof -
  have c: "autoheal_enabled cycle" "remediation_instant cycle = Some jan10"
    "plugin_run cycle ''pre_auto_attach'' (identity_uuid cycle) None = None"
    "uep_bind cycle (identity_uuid cycle) jan10 = Inr pool_grant"
    "plugin_run cycle ''post_auto_attach'' (identity_uuid cycle) (Some pool_grant) = None"
    "cert_update cycle = Inr update_report"
    by (simp_all add: cycle_defs)
  have id: "identity_uuid cycle = ''c0ffee''" by (simp add: cycle_def)
  from heal_returns [OF c] have h1: "Bind ''c0ffee'' jan10 \<in> set (trace_of cycle)"
    unfolding id bind_in_calls [of _ _ "trace_of cycle"] by simp
  have h2: "uep_bind cycle ''c0ffee'' jan10 = Inr pool_grant"
    and h3: "plugin_run cycle ''post_auto_attach'' ''c0ffee'' (Some pool_grant) = None"
    by (simp_all add: cycle_defs)
  show ?thesis using h1 h2 h3 update_follows_bind_and_post_hook [OF h1 h2 h3] by simp
qed

text \<open>
  C7 as stated fails: when the bind returns and the dispatch of \<open>post_auto_attach\<close>
  raises, the certificate update is not invoked in that cycle.
\<close>

theorem update_after_bind_counterexample:
  "Bind ''c0ffee'' jan10 \<in> set (trace_of (cycle\<lparr>plugin_run := post_hook_fails\<rparr>)) \<and>
   uep_bind (cycle\<lparr>plugin_run := post_hook_fails\<rparr>) ''c0ffee'' jan10 = Inr pool_grant \<and>
   CertUpdate \<notin> set (trace_of (cycle\<lparr>plugin_run := post_hook_fails\<rparr>))"
proof -
  let ?p = "cycle\<lparr>plugin_run := post_hook_fails\<rparr>"
  have p: "autoheal_enabled ?p" "remediation_instant ?p = Some jan10"
    "plugin_run ?p ''pre_auto_attach'' (identity_uuid ?p) None = None"
    "uep_bind ?p (identity_uuid ?p) jan10 = Inr pool_grant"
    "plugin_run ?p ''post_auto_attach'' (identity_uuid ?p) (Some pool_grant) =
       Some (Exn ''HookError'' ''post'')"
    by (simp_all add: cycle_defs)
  have id: "identity_uuid ?p = ''c0ffee''" by (simp add: cycle_def)
  from heal_post_raises [OF p] show ?thesis
    unfolding id bind_in_calls [of _ _ "trace_of ?p"] update_in_calls [of "trace_of ?p"]
    by (simp add: cycle_defs)
qed

text \<open>
  C8. When auto-heal is enabled, today is valid and \<open>compliant_until\<close> is absent, no bind
  is issued, no hook is dispatched, and the report returned is empty: no error, only the
  warning about the missing date is logged.
\<close>

theorem valid_without_until_date:
  assumes "autoheal_enabled e" and "is_valid e = Inr True" and "compliant_until e = None"
  shows "bind_calls (trace_of e) = [] \<and> hook_calls (trace_of e) = [] \<and>
         result_of e = Returned (RReport \<lparr>grants = [], exceptions = []\<rparr>) \<and>
         logged Warning (trace_of e) =
           [''Got valid status from server but no valid until date.''] \<and>
         logged Error (trace_of e) = []"
  using assms(2,3)
  by (simp add: perform_enabled [OF assms(1)] try_body_no_until finish_def
      EntCertUpdateReport_def read_defs)

theorem valid_without_until_date_witness:
  "autoheal_enabled (cycle\<lparr>is_valid := Inr True\<rparr>) \<and>
   compliant_until (cycle\<lparr>is_valid := Inr True\<rparr>) = None \<and>
   trace_of (cycle\<lparr>is_valid := Inr True\<rparr>) \<noteq> [] \<and>
   bind_calls (trace_of (cycle\<lparr>is_valid := Inr True\<rparr>)) = [] \<and>
   hook_calls (trace_of (cycle\<lparr>is_valid := Inr True\<rparr>)) = [] \<and>
   result_of (cycle\<lparr>is_valid := Inr True\<rparr>) =
     Returned (RReport \<lparr>grants = [], exceptions = []\<rparr>)"
proof -
  let ?e = "cycle\<lparr>is_valid := Inr True\<rparr>"
  have h1: "autoheal_enabled ?e" by (simp add: cycle_defs)
  have h2: "is_valid ?e = Inr True" by (simp add: cycle_defs)
  have h3: "compliant_until ?e = None" by (simp add: cycle_defs)
  have "logged Warning (trace_of ?e) \<noteq> []"
    using valid_without_until_date [OF h1 h2 h3] by simp
  then have "trace_of ?e \<noteq> []" by auto
  then show ?thesis using h1 h3 valid_without_until_date [OF h1 h2 h3] by simp
qed

text \<open>
  C9, as amended. When auto-heal is enabled, today is invalid, both hooks and the bind
  succeed and the certificate update returns a report, the report \<open>perform\<close> returns is
  that report of the certificate update, as it is: \<open>perform\<close> adds no error to it and
  does not record the entitlements of the bind in it. Those are handed to the dispatch of
  \<open>post_auto_attach\<close>.
\<close>

theorem healed_today_returns_update_report:
  assumes "autoheal_enabled e" and "is_valid e = Inr False"
    and "plugin_run e ''pre_auto_attach'' (identity_uuid e) None = None"
    and "uep_bind e (identity_uuid e) (now e) = Inr ents"
    and "plugin_run e ''post_auto_attach'' (identity_uuid e) (Some ents) = None"
    and "cert_update e = Inr r"
  shows "result_of e = Returned (RReport r) \<and>
         calls (trace_of e) =
           [GetConsumer (identity_uuid e), IsValid,
            RunHook ''pre_auto_attach'' (identity_uuid e) None,
            Bind (identity_uuid e) (now e),
            RunHook ''post_auto_attach'' (identity_uuid e) (Some ents), CertUpdate]"
  using heal_returns [OF assms(1) today_instant [OF assms(2)] assms(3,4,5,6)] .

theorem healed_today_returns_update_report_witness:
  "autoheal_enabled cycle \<and> is_valid cycle = Inr False \<and>
   uep_bind cycle ''c0ffee'' jan10 = Inr pool_grant \<and>
   cert_update cycle = Inr update_report \<and>
   result_of cycle = Returned (RReport update_report)"
proof -
  have c: "autoheal_enabled cycle" "is_valid cycle = Inr False"
    "plugin_run cycle ''pre_auto_attach'' (identity_uuid cycle) None = None"
    "uep_bind cycle (identity_uuid cycle) (now cycle) = Inr pool_grant"
    "plugin_run cycle ''post_auto_attach'' (identity_uuid cycle) (Some pool_grant) = None"
    "cert_update cycle = Inr update_report"
    by (simp_all add: cycle_defs)
  have id: "identity_uuid cycle = ''c0ffee''" "now cycle = jan10" by (simp_all add: cycle_def)
  show ?thesis using c healed_today_returns_update_report [OF c] unfolding id by simp
qed

text \<open>
  C9 as stated fails: in the scenario where everything succeeds, the bind returns one
  entitlement, and the report returned is the one of the certificate update, whose
  grants are not the entitlements of the bind and whose error list is not empty.
\<close>

theorem healed_today_counterexample:
  "autoheal_enabled cycle \<and> is_valid cycle = Inr False \<and>
   plugin_run cycle ''pre_auto_attach'' ''c0ffee'' None = None \<and>
   uep_bind cycle ''c0ffee'' jan10 = Inr pool_grant \<and>
   plugin_run cycle ''post_auto_attach'' ''c0ffee'' (Some pool_grant) = None \<and>
   result_of cycle = Returned (RReport update_report) \<and>
   grants update_report \<noteq> pool_grant \<and>
   exceptions update_report \<noteq> []"
proof -
  have c: "autoheal_enabled cycle" "remediation_instant cycle = Some jan10"
    "plugin_run cycle ''pre_auto_attach'' (identity_uuid cycle) None = None"
    "uep_bind cycle (identity_uuid cycle) jan10 = Inr pool_grant"
    "plugin_run cycle ''post_auto_attach'' (identity_uuid cycle) (Some pool_grant) = None"
    "cert_update cycle = Inr update_report"
    by (simp_all add: cycle_defs)
  from heal_returns [OF c] show ?thesis by (simp add: cycle_defs)
qed

text \<open>
  C10, as amended. When a remediation branch is taken (for today or for tomorrow) and the
  dispatch of \<open>pre_auto_attach\<close> raises \<open>x\<close>, no bind is issued and the certificate
  update is not invoked. If \<open>x\<close> is an instance of \<open>Exception\<close>, \<open>perform\<close> returns a
  report whose error list holds \<open>x\<close> and whose grants are empty; if it is not, \<open>x\<close> is
  raised by \<open>perform\<close>.
\<close>

theorem pre_hook_error_stops_healing:
  assumes "autoheal_enabled e" and "remediation_instant e = Some t"
    and "plugin_run e ''pre_auto_attach'' (identity_uuid e) None = Some x"
  shows "bind_calls (trace_of e) = [] \<and> CertUpdate \<notin> set (trace_of e) \<and>
         (is_exception x \<longrightarrow>
            result_of e = Returned (RReport \<lparr>grants = [], exceptions = [x]\<rparr>)) \<and>
         (\<not> is_exception x \<longrightarrow> result_of e = Raised x)"
  using heal_pre_raises [OF assms]
  by (simp add: bind_calls_calls update_in_calls [of "trace_of e"] raised_in_try_def)

theorem pre_hook_error_stops_healing_witness:
  "remediation_instant (cycle\<lparr>plugin_run := pre_hook_fails\<rparr>) = Some jan10 \<and>
   is_exception (Exn ''HookError'' ''pre'') \<and>
   bind_calls (trace_of (cycle\<lparr>plugin_run := pre_hook_fails\<rparr>)) = [] \<and>
   CertUpdate \<notin> set (trace_of (cycle\<lparr>plugin_run := pre_hook_fails\<rparr>)) \<and>
   result_of (cycle\<lparr>plugin_run := pre_hook_fails\<rparr>) =
     Returned (RReport \<lparr>grants = [], exceptions = [Exn ''HookError'' ''pre'']\<rparr>) \<and>
   remediation_instant
     (cycle\<lparr>is_valid := Inr True, compliant_until := Some (jan10 + half_day),
        plugin_run := pre_hook_interrupted\<rparr>) = Some (jan10 + one_day) \<and>
   \<not> is_exception (BaseExn ''KeyboardInterrupt'' []) \<and>
   bind_calls (trace_of
     (cycle\<lparr>is_valid := Inr True, compliant_until := Some (jan10 + half_day),
        plugin_run := pre_hook_interrupted\<rparr>)) = [] \<and>
   result_of
     (cycle\<lparr>is_valid := Inr True, compliant_until := Some (jan10 + half_day),
        plugin_run := pre_hook_interrupted\<rparr>) = Raised (BaseExn ''KeyboardInterrupt'' [])"
proof -
  let ?e = "cycle\<lparr>plugin_run := pre_hook_fails\<rparr>"
  let ?k = "cycle\<lparr>is_valid := Inr True, compliant_until := Some (jan10 + half_day),
        plugin_run := pre_hook_interrupted\<rparr>"
  have h1: "autoheal_enabled ?e" by (simp add: cycle_defs)
  have h2: "remediation_instant ?e = Some jan10" by (simp add: cycle_defs)
  have h3: "plugin_run ?e ''pre_auto_attach'' (identity_uuid ?e) None = Some (Exn ''HookError'' ''pre'')"
    by (simp add: cycle_defs)
  have k1: "autoheal_enabled ?k" by (simp add: cycle_defs)
  have k2: "remediation_instant ?k = Some (jan10 + one_day)" by (simp add: cycle_defs)
  have k3: "plugin_run ?k ''pre_auto_attach'' (identity_uuid ?k) None =
      Some (BaseExn ''KeyboardInterrupt'' [])"
    by (simp add: cycle_defs)
  show ?thesis
    using h2 k2 pre_hook_error_stops_healing [OF h1 h2 h3]
      pre_hook_error_stops_healing [OF k1 k2 k3]
    by simp
qed

text \<open>
  C10 as stated fails: when today is invalid and the dispatch of \<open>pre_auto_attach\<close>
  raises a \<open>KeyboardInterrupt\<close>, which is not an instance of \<open>Exception\<close>, \<open>perform\<close>
  returns no report: the interrupt is raised to its caller.
\<close>

theorem pre_hook_interrupt_counterexample:
  "autoheal_enabled (cycle\<lparr>plugin_run := pre_hook_interrupted\<rparr>) \<and>
   remediation_instant (cycle\<lparr>plugin_run := pre_hook_interrupted\<rparr>) = Some jan10 \<and>
   plugin_run (cycle\<lparr>plugin_run := pre_hook_interrupted\<rparr>) ''pre_auto_attach'' ''c0ffee'' None =
     Some (BaseExn ''KeyboardInterrupt'' []) \<and>
   result_of (cycle\<lparr>plugin_run := pre_hook_interrupted\<rparr>) =
     Raised (BaseExn ''KeyboardInterrupt'' []) \<and>
   trace_of (cycle\<lparr>plugin_run := pre_hook_interrupted\<rparr>) =
     [GetConsumer ''c0ffee'', IsValid,
      Log Warning ''Found invalid entitlements for today: %s'' [jan10],
      RunHook ''pre_auto_attach'' ''c0ffee'' None]"
proof -
  let ?k = "cycle\<lparr>plugin_run := pre_hook_interrupted\<rparr>"
  have k: "autoheal_enabled ?k" "remediation_instant ?k = Some jan10"
    "plugin_run ?k ''pre_auto_attach'' (identity_uuid ?k) None =
       Some (BaseExn ''KeyboardInterrupt'' [])"
    and v: "is_valid ?k = Inr False"
    and id: "identity_uuid ?k = ''c0ffee''" "now ?k = jan10"
    by (simp_all add: cycle_defs)
  from heal_pre_raises [OF k]
  have "result_of ?k = Raised (BaseExn ''KeyboardInterrupt'' [])"
    by (simp add: raised_in_try_def)
  moreover have "trace_of ?k =
     [GetConsumer ''c0ffee'', IsValid,
      Log Warning ''Found invalid entitlements for today: %s'' [jan10],
      RunHook ''pre_auto_attach'' ''c0ffee'' None]"
    using k(3) unfolding trace_of_def perform_enabled [OF k(1)] try_body_today [OF v] id
    by (simp add: auto_attach_pre_raises finish_def)
  ultimately show ?thesis using k(1,2) k(3) [unfolded id] by simp
qed

end
